theory Spec2Isabelle
  imports Complex_Main
begin

section \<open>Python values shared by the two scripts\<close>

text \<open>
  A Python float is either one of the three non-finite values or a finite number. Only
  this classification is observed by the scripts (\<open>pd.isna\<close>, \<open>v == float("inf")\<close>,
  truthiness), so the finite payload is a real number.
\<close>

datatype pyfloat = NaN | PosInf | NegInf | Finite real

text \<open>Exceptions are values; each carries the text that \<open>str(e)\<close> gives.\<close>

datatype py_error =
    KeyError string
  | TypeError string
  | AttributeError string
  | JSONDecodeError string
  | APIError string
  | OSError string

fun str_of :: "py_error \<Rightarrow> string" where
  "str_of (KeyError m) = m"
| "str_of (TypeError m) = m"
| "str_of (AttributeError m) = m"
| "str_of (JSONDecodeError m) = m"
| "str_of (APIError m) = m"
| "str_of (OSError m) = m"

text \<open>Sequencing of statements that may raise: the first exception wins.\<close>

definition bindE :: "py_error + 'a \<Rightarrow> ('a \<Rightarrow> py_error + 'b) \<Rightarrow> py_error + 'b" where
  "bindE m f = (case m of Inl e \<Rightarrow> Inl e | Inr v \<Rightarrow> f v)"

text \<open>How a script ends: \<open>exit(n)\<close> or falling off the end, or an uncaught exception.\<close>

datatype exit_status = Exit int | Uncaught py_error

fun exit_code :: "exit_status \<Rightarrow> int" where
  "exit_code (Exit n) = n"
| "exit_code (Uncaught e) = 1"


section \<open>events-importer.py\<close>

subsection \<open>Cells, rows and the event-code record\<close>

text \<open>
  A cell of a row produced by \<open>df.iterrows()\<close>: a missing marker (\<open>None\<close>, \<open>NaT\<close>),
  a bool, an int, a float, a string or a timestamp.
\<close>

datatype cell =
    CNone
  | CNaT
  | CBool bool
  | CInt int
  | CFloat pyfloat
  | CStr string
  | CTimestamp string

text \<open>A row is indexed by column label; \<open>row[c]\<close> raises \<open>KeyError\<close> for an unknown label.\<close>

type_synonym row = "string \<rightharpoonup> cell"

definition getitem :: "row \<Rightarrow> string \<Rightarrow> py_error + cell" where
  "getitem row c = (case row c of None \<Rightarrow> Inl (KeyError c) | Some v \<Rightarrow> Inr v)"

text \<open>The dict \<open>event_data\<close>, in insertion order.\<close>

type_synonym event_data = "(string \<times> cell) list"

text \<open>The dict literal of lines 26-33: the six lookups run in order.\<close>

definition build_event_data :: "row \<Rightarrow> py_error + event_data" where
  "build_event_data row =
     bindE (getitem row ''eInd'') (\<lambda>v1.
     bindE (getitem row ''eDescriptionENGL'') (\<lambda>v2.
     bindE (getitem row ''eDescriptionSLO'') (\<lambda>v3.
     bindE (getitem row ''eID'') (\<lambda>v4.
     bindE (getitem row ''eDescriptionButt'') (\<lambda>v5.
     bindE (getitem row ''Notes'') (\<lambda>v6.
       Inr [(''e_ind'', v1),
            (''e_description_engl'', v2),
            (''e_description_slo'', v3),
            (''e_id'', v4),
            (''e_description_butt'', v5),
            (''notes'', v6)]))))))"

subsection \<open>The replacement loop (lines 35-37)\<close>

fun pd_isna :: "cell \<Rightarrow> bool" where
  "pd_isna CNone = True"
| "pd_isna CNaT = True"
| "pd_isna (CFloat NaN) = True"
| "pd_isna _ = False"

fun isinstance_float :: "cell \<Rightarrow> bool" where
  "isinstance_float (CFloat f) = True"
| "isinstance_float _ = False"

text \<open>The condition of line 36.\<close>

definition replace_cond :: "cell \<Rightarrow> bool" where
  "replace_cond v =
     (pd_isna v \<or> (isinstance_float v \<and> (v = CFloat PosInf \<or> v = CFloat NegInf)))"

text \<open>\<open>d[k] = v\<close>: an existing key keeps its position, a new key goes last.\<close>

fun setitem :: "event_data \<Rightarrow> string \<Rightarrow> cell \<Rightarrow> event_data" where
  "setitem [] k v = [(k, v)]"
| "setitem ((k', v') # d) k v = (if k' = k then (k, v) # d else (k', v') # setitem d k v)"

text \<open>
  The \<open>for k, v in event_data.items()\<close> loop. The body assigns only to the key being
  visited, so the items still to come are those of the dict the loop started with.
\<close>

fun replace_loop :: "(string \<times> cell) list \<Rightarrow> event_data \<Rightarrow> event_data" where
  "replace_loop [] d = d"
| "replace_loop ((k, v) # items) d =
     replace_loop items (if replace_cond v then setitem d k CNone else d)"

definition replace_nonfinite :: "event_data \<Rightarrow> event_data" where
  "replace_nonfinite d = replace_loop d d"

subsection \<open>The insert loop (lines 25-38) and the script\<close>

text \<open>
  One call \<open>supabase.table(t).insert(payload).execute()\<close>. The remote service is not
  part of the repository: it is a parameter \<open>ins\<close> taking the remote state and the call
  to the new remote state, or to the exception the client raises.
\<close>

record insert_call =
  ic_table :: string
  ic_payload :: event_data

type_synonym 'db inserter = "'db \<Rightarrow> insert_call \<Rightarrow> py_error + 'db"

text \<open>
  What a run leaves behind: the calls issued so far (oldest first), the remote state, and
  how the run ended.
\<close>

record 'db run =
  calls :: "insert_call list"
  remote :: 'db
  status :: exit_status

fun import_rows :: "'db inserter \<Rightarrow> row list \<Rightarrow> insert_call list \<Rightarrow> 'db \<Rightarrow> 'db run" where
  "import_rows ins [] cs db = \<lparr>calls = cs, remote = db, status = Exit 0\<rparr>"
| "import_rows ins (row # rows) cs db =
     (case build_event_data row of
        Inl e \<Rightarrow> \<lparr>calls = cs, remote = db, status = Uncaught e\<rparr>
      | Inr d \<Rightarrow>
          (let event_data = replace_nonfinite d;
               c = \<lparr>ic_table = ''event_codes'', ic_payload = event_data\<rparr>
           in case ins db c of
                Inl e \<Rightarrow> \<lparr>calls = cs @ [c], remote = db, status = Uncaught e\<rparr>
              | Inr db' \<Rightarrow> import_rows ins rows (cs @ [c]) db'))"

text \<open>
  The script: \<open>pd.read_excel\<close> (a parameter: the file's rows, or the exception it raises),
  then the loop.
\<close>

definition importer ::
  "(string \<Rightarrow> py_error + row list) \<Rightarrow> 'db inserter \<Rightarrow> 'db \<Rightarrow> string \<Rightarrow> 'db run" where
  "importer read_excel ins db xlsx_path =
     (case read_excel xlsx_path of
        Inl e \<Rightarrow> \<lparr>calls = [], remote = db, status = Uncaught e\<rparr>
      | Inr df \<Rightarrow> import_rows ins df [] db)"

subsection \<open>Vocabulary for stating the importer's properties\<close>

text \<open>The call issued for a row whose dict literal evaluated to \<open>d\<close>.\<close>

definition insert_of :: "event_data \<Rightarrow> insert_call" where
  "insert_of d = \<lparr>ic_table = ''event_codes'', ic_payload = replace_nonfinite d\<rparr>"

text \<open>
  The remote state after a list of calls has completed one after the other, or the
  exception of the first call that fails.
\<close>

fun apply_inserts :: "'db inserter \<Rightarrow> 'db \<Rightarrow> insert_call list \<Rightarrow> py_error + 'db" where
  "apply_inserts ins db [] = Inr db"
| "apply_inserts ins db (c # cs) = bindE (ins db c) (\<lambda>db'. apply_inserts ins db' cs)"

text \<open>What the loop makes of one entry when the keys are distinct.\<close>

definition replace_entry :: "string \<times> cell \<Rightarrow> string \<times> cell" where
  "replace_entry kv = (fst kv, if replace_cond (snd kv) then CNone else snd kv)"

text \<open>NaN and the two infinities.\<close>

definition non_finite :: "cell \<Rightarrow> bool" where
  "non_finite v = (v = CFloat NaN \<or> v = CFloat PosInf \<or> v = CFloat NegInf)"

text \<open>
  A submitted field \<open>out\<close> against the cell \<open>v\<close> it was read from: null when \<open>v\<close> is
  NaN or infinite, \<open>v\<close> itself when \<open>v\<close> is a present value that is not infinite, and
  never NaN or infinite.
\<close>

definition field_ok :: "cell \<Rightarrow> cell \<Rightarrow> bool" where
  "field_ok v out =
     ((non_finite v \<longrightarrow> out = CNone) \<and>
      (\<not> pd_isna v \<and> \<not> non_finite v \<longrightarrow> out = v) \<and>
      \<not> non_finite out)"

text \<open>The six keys of the record with the column each is read from.\<close>

definition event_columns :: "(string \<times> string) list" where
  "event_columns =
     [(''e_ind'', ''eInd''),
      (''e_description_engl'', ''eDescriptionENGL''),
      (''e_description_slo'', ''eDescriptionSLO''),
      (''e_id'', ''eID''),
      (''e_description_butt'', ''eDescriptionButt''),
      (''notes'', ''Notes'')]"

definition record_ok :: "row \<Rightarrow> event_data \<Rightarrow> bool" where
  "record_ok row payload =
     list_all2 (\<lambda>(k, c) (k', out). k' = k \<and> (\<exists>v. row c = Some v \<and> field_ok v out))
       event_columns payload"


section \<open>signal-fetcher.py\<close>

subsection \<open>Decoded JSON values\<close>

text \<open>
  The rows of \<open>response.data\<close> and everything \<open>json.loads\<close> returns: \<open>None\<close>, bools,
  ints, floats, strings, lists, and dicts in insertion order.
\<close>

datatype json =
    JNull
  | JBool bool
  | JInt int
  | JFloat pyfloat
  | JStr string
  | JArr "json list"
  | JObj "(string \<times> json) list"

type_synonym pydict = "(string \<times> json) list"

text \<open>Truth value of an object in \<open>if signal_json:\<close>.\<close>

fun truthy :: "json \<Rightarrow> bool" where
  "truthy JNull = False"
| "truthy (JBool b) = b"
| "truthy (JInt i) = (i \<noteq> 0)"
| "truthy (JFloat f) = (f \<noteq> Finite 0)"
| "truthy (JStr s) = (s \<noteq> [])"
| "truthy (JArr vs) = (vs \<noteq> [])"
| "truthy (JObj d) = (d \<noteq> [])"

fun isinstance_dict :: "json \<Rightarrow> bool" where
  "isinstance_dict (JObj d) = True"
| "isinstance_dict _ = False"

fun type_name :: "json \<Rightarrow> string" where
  "type_name JNull = ''NoneType''"
| "type_name (JBool b) = ''bool''"
| "type_name (JInt i) = ''int''"
| "type_name (JFloat f) = ''float''"
| "type_name (JStr s) = ''str''"
| "type_name (JArr vs) = ''list''"
| "type_name (JObj d) = ''dict''"

text \<open>\<open>d.get(k, default)\<close> on a dict.\<close>

definition dict_get :: "pydict \<Rightarrow> string \<Rightarrow> json \<Rightarrow> json" where
  "dict_get d k dflt = (case map_of d k of None \<Rightarrow> dflt | Some v \<Rightarrow> v)"

text \<open>
  \<open>signal.get(k, default)\<close> on whatever was decoded: only a dict has the method, any
  other value raises \<open>AttributeError\<close>.
\<close>

definition quoted :: "string \<Rightarrow> string" where
  "quoted s = CHR 0x27 # s @ [CHR 0x27]"

definition signal_get :: "json \<Rightarrow> string \<Rightarrow> json \<Rightarrow> py_error + json" where
  "signal_get signal k dflt =
     (case signal of
        JObj d \<Rightarrow> Inr (dict_get d k dflt)
      | _ \<Rightarrow> Inl (AttributeError
                 (quoted (type_name signal) @ '' object has no attribute '' @ quoted ''get'')))"

text \<open>
  \<open>json.loads(v)\<close>. Decoding of text belongs to Python's library and is a parameter
  \<open>decode\<close>, asked about non-empty text only: the empty text is no JSON document and
  always raises. An argument that is not text raises \<open>TypeError\<close>.
\<close>

type_synonym decoder = "string \<Rightarrow> py_error + json"

definition json_loads :: "decoder \<Rightarrow> json \<Rightarrow> py_error + json" where
  "json_loads decode v =
     (case v of
        JStr s \<Rightarrow>
          (if s = [] then Inl (JSONDecodeError ''Expecting value: line 1 column 1 (char 0)'')
           else decode s)
      | _ \<Rightarrow> Inl (TypeError
                 (''the JSON object must be str, bytes or bytearray, not '' @ type_name v)))"

text \<open>Lines 47-50 and 64-67: a dict is used directly, anything else is decoded.\<close>

definition decode_signal :: "decoder \<Rightarrow> json \<Rightarrow> py_error + json" where
  "decode_signal decode signal_json =
     (if isinstance_dict signal_json then Inr signal_json else json_loads decode signal_json)"

subsection \<open>The queries (lines 16-38)\<close>

text \<open>
  A request as the client's builder assembles it: the table, the selected columns, the
  filters in the order they were added (column, operator, value), and the row limit if
  one was set. Running it is a parameter \<open>execute\<close>, giving \<open>response.data\<close> or the
  exception raised.
\<close>

record query =
  q_table :: string
  q_columns :: string
  q_filters :: "(string \<times> string \<times> string) list"
  q_limit :: "nat option"

type_synonym executor = "query \<Rightarrow> py_error + pydict list"

definition table_select :: "string \<Rightarrow> string \<Rightarrow> query" where
  "table_select name cols = \<lparr>q_table = name, q_columns = cols, q_filters = [], q_limit = None\<rparr>"

definition filter_q :: "string \<Rightarrow> string \<Rightarrow> string \<Rightarrow> query \<Rightarrow> query" where
  "filter_q col opr v q = q\<lparr>q_filters := q_filters q @ [(col, opr, v)]\<rparr>"

definition eq_q :: "string \<Rightarrow> string \<Rightarrow> query \<Rightarrow> query" where
  "eq_q col v q = filter_q col ''eq'' v q"

text \<open>The builder's \<open>limit(n)\<close>, the only way to set a row limit; the script never calls it.\<close>

definition limit_q :: "nat \<Rightarrow> query \<Rightarrow> query" where
  "limit_q n q = q\<lparr>q_limit := Some n\<rparr>"

definition accelerometer_query :: "string \<Rightarrow> query" where
  "accelerometer_query date_str =
     (let sensor_type_id = ''3b48eed5-6ece-4eb8-8c88-b5e645839385'' in
      filter_q ''timestamp'' ''lt'' (date_str @ ''T23:59:59'')
        (filter_q ''timestamp'' ''gte'' (date_str @ ''T00:00:00'')
          (eq_q ''sensor_type_id'' sensor_type_id
            (table_select ''sensor_data'' ''*''))))"

definition fetch_accelerometer_data :: "executor \<Rightarrow> string \<Rightarrow> py_error + pydict list" where
  "fetch_accelerometer_data execute date_str = execute (accelerometer_query date_str)"

definition gyroscope_query :: "string \<Rightarrow> query" where
  "gyroscope_query date_str =
     (let sensor_type_id = ''d4ad2653-b430-40c2-9f47-bdc140119c57'' in
      filter_q ''timestamp'' ''lt'' (date_str @ ''T23:59:59'')
        (filter_q ''timestamp'' ''gte'' (date_str @ ''T00:00:00'')
          (eq_q ''sensor_type_id'' sensor_type_id
            (table_select ''sensor_data'' ''*''))))"

definition fetch_gyroscope_data :: "executor \<Rightarrow> string \<Rightarrow> py_error + pydict list" where
  "fetch_gyroscope_data execute date_str = execute (gyroscope_query date_str)"

subsection \<open>parse_signals (lines 40-57)\<close>

text \<open>The three lists being built, and the lines printed so far.\<close>

record channels =
  ch_xs :: "json list"
  ch_ys :: "json list"
  ch_zs :: "json list"
  ch_out :: "string list"

text \<open>
  The body of the \<open>try\<close> (lines 47-53). An exception leaves the lists as they are at
  the statement that raised: the result is then the exception with that state.
\<close>

definition try_body :: "decoder \<Rightarrow> json \<Rightarrow> channels \<Rightarrow> (py_error \<times> channels) + channels" where
  "try_body decode signal_json st =
     (case decode_signal decode signal_json of
        Inl e \<Rightarrow> Inl (e, st)
      | Inr signal \<Rightarrow>
          (case signal_get signal ''x'' (JInt 0) of
             Inl e \<Rightarrow> Inl (e, st)
           | Inr vx \<Rightarrow>
               (let st1 = st\<lparr>ch_xs := ch_xs st @ [vx]\<rparr> in
                case signal_get signal ''y'' (JInt 0) of
                  Inl e \<Rightarrow> Inl (e, st1)
                | Inr vy \<Rightarrow>
                    (let st2 = st1\<lparr>ch_ys := ch_ys st1 @ [vy]\<rparr> in
                     case signal_get signal ''z'' (JInt 0) of
                       Inl e \<Rightarrow> Inl (e, st2)
                     | Inr vz \<Rightarrow> Inr (st2\<lparr>ch_zs := ch_zs st2 @ [vz]\<rparr>)))))"

fun parse_signals_loop :: "decoder \<Rightarrow> pydict list \<Rightarrow> channels \<Rightarrow> channels" where
  "parse_signals_loop decode [] st = st"
| "parse_signals_loop decode (row # data) st =
     (let signal_json = dict_get row ''data'' JNull in
      if truthy signal_json then
        (case try_body decode signal_json st of
           Inr st' \<Rightarrow> parse_signals_loop decode data st'
         | Inl (e, st') \<Rightarrow>
             parse_signals_loop decode data
               (st'\<lparr>ch_out := ch_out st' @ [''Error parsing signal: '' @ str_of e]\<rparr>))
      else parse_signals_loop decode data st)"

text \<open>The call: its returned triple is \<open>(ch_xs, ch_ys, ch_zs)\<close>, \<open>ch_out\<close> is what it printed.\<close>

definition parse_signals :: "decoder \<Rightarrow> pydict list \<Rightarrow> channels" where
  "parse_signals decode data =
     parse_signals_loop decode data \<lparr>ch_xs = [], ch_ys = [], ch_zs = [], ch_out = []\<rparr>"

definition returned :: "channels \<Rightarrow> json list \<times> json list \<times> json list" where
  "returned st = (ch_xs st, ch_ys st, ch_zs st)"

subsection \<open>parse_signals_to_dataframe (lines 59-74)\<close>

record sample =
  s_x :: json
  s_y :: json
  s_z :: json
  s_timestamp :: json

text \<open>The dict literal of lines 68-73, evaluated in order.\<close>

definition make_record :: "pydict \<Rightarrow> json \<Rightarrow> py_error + sample" where
  "make_record row signal =
     bindE (signal_get signal ''x'' (JInt 0)) (\<lambda>vx.
     bindE (signal_get signal ''y'' (JInt 0)) (\<lambda>vy.
     bindE (signal_get signal ''z'' (JInt 0)) (\<lambda>vz.
       Inr \<lparr>s_x = vx, s_y = vy, s_z = vz, s_timestamp = dict_get row ''timestamp'' JNull\<rparr>)))"

fun to_dataframe_loop :: "decoder \<Rightarrow> pydict list \<Rightarrow> sample list \<Rightarrow> py_error + sample list" where
  "to_dataframe_loop decode [] records = Inr records"
| "to_dataframe_loop decode (row # data) records =
     (let signal_json = dict_get row ''data'' JNull in
      if truthy signal_json then
        (case bindE (decode_signal decode signal_json) (make_record row) of
           Inl e \<Rightarrow> Inl e
         | Inr r \<Rightarrow> to_dataframe_loop decode data (records @ [r]))
      else to_dataframe_loop decode data records)"

text \<open>
  The frame built by \<open>pd.DataFrame(records)\<close> is represented by the records it was
  given, in row order. Its column labels are the keys of those records in order of first
  appearance, so a frame built from no record has no column at all, and reading
  \<open>df["x"]\<close> from it raises \<open>KeyError\<close>. How the library stores the values of a
  column (its dtype inference turns \<open>None\<close> beside numbers into NaN and ints beside
  floats into floats) is not modelled: what is said about values is said of the records.
\<close>

datatype dataframe = DataFrame "sample list"


definition parse_signals_to_dataframe :: "decoder \<Rightarrow> pydict list \<Rightarrow> py_error + dataframe" where
  "parse_signals_to_dataframe decode data =
     (case to_dataframe_loop decode data [] of
        Inl e \<Rightarrow> Inl e
      | Inr records \<Rightarrow> Inr (DataFrame records))"

subsection \<open>Plotting and the script (lines 76-107)\<close>

text \<open>What the script has printed and which files it has written, oldest first.\<close>

record world =
  printed :: "string list"
  files :: "string list"

text \<open>
  Lines 77-86 are calls into the charting library: a parameter \<open>render\<close> that either
  succeeds (the file exists afterwards) or raises. Line 87 prints.
\<close>

type_synonym renderer = "dataframe \<Rightarrow> string \<Rightarrow> string \<Rightarrow> py_error option"

definition plot_signals_from_dataframe ::
  "renderer \<Rightarrow> dataframe \<Rightarrow> string \<Rightarrow> string \<Rightarrow> world \<Rightarrow> py_error + world" where
  "plot_signals_from_dataframe render df title filename w =
     (case render df title filename of
        Some e \<Rightarrow> Inl e
      | None \<Rightarrow> Inr (w\<lparr>files := files w @ [filename],
                        printed := printed w @ [''Plot saved as '' @ filename]\<rparr>))"

text \<open>The script body after argument parsing, started with the date.\<close>

definition signal_fetcher ::
  "executor \<Rightarrow> decoder \<Rightarrow> renderer \<Rightarrow> string \<Rightarrow> world \<times> exit_status" where
  "signal_fetcher execute decode render date =
     (let w0 = \<lparr>printed = [], files = []\<rparr> in
      case fetch_accelerometer_data execute date of
        Inl e \<Rightarrow> (w0, Uncaught e)
      | Inr accel_data \<Rightarrow>
      (case fetch_gyroscope_data execute date of
        Inl e \<Rightarrow> (w0, Uncaught e)
      | Inr gyro_data \<Rightarrow>
      if accel_data = [] then
        (w0\<lparr>printed := printed w0 @ [''No data found for the given date.'']\<rparr>, Exit 0)
      else if gyro_data = [] then
        (w0\<lparr>printed := printed w0 @ [''No gyroscope data found for the given date.'']\<rparr>, Exit 0)
      else
      (case parse_signals_to_dataframe decode accel_data of
        Inl e \<Rightarrow> (w0, Uncaught e)
      | Inr accel_df \<Rightarrow>
      (case plot_signals_from_dataframe render accel_df
              ''Accelerometer Signal'' ''accel_signal_plot.png'' w0 of
        Inl e \<Rightarrow> (w0, Uncaught e)
      | Inr w1 \<Rightarrow>
      (case parse_signals_to_dataframe decode gyro_data of
        Inl e \<Rightarrow> (w1, Uncaught e)
      | Inr gyro_df \<Rightarrow>
      (case plot_signals_from_dataframe render gyro_df
              ''Gyroscope Signal'' ''gyro_signal_plot.png'' w1 of
        Inl e \<Rightarrow> (w1, Uncaught e)
      | Inr w2 \<Rightarrow> (w2, Exit 0)))))))"


subsection \<open>Vocabulary for stating the decoders' properties\<close>

text \<open>A row is retained when its payload passes \<open>if signal_json:\<close>.\<close>

definition payload :: "pydict \<Rightarrow> json" where
  "payload row = dict_get row ''data'' JNull"

definition retained :: "pydict \<Rightarrow> bool" where
  "retained row = truthy (payload row)"

text \<open>The three channel reads of a decoded value, in the order both functions make them.\<close>

definition signal_triple :: "json \<Rightarrow> py_error + json \<times> json \<times> json" where
  "signal_triple signal =
     bindE (signal_get signal ''x'' (JInt 0)) (\<lambda>vx.
     bindE (signal_get signal ''y'' (JInt 0)) (\<lambda>vy.
     bindE (signal_get signal ''z'' (JInt 0)) (\<lambda>vz. Inr (vx, vy, vz))))"

text \<open>Decoding a row's payload into its channels: the triple, or the exception raised.\<close>

definition decode_row :: "decoder \<Rightarrow> pydict \<Rightarrow> py_error + json \<times> json \<times> json" where
  "decode_row decode row = bindE (decode_signal decode (payload row)) signal_triple"

definition kept :: "decoder \<Rightarrow> pydict \<Rightarrow> bool" where
  "kept decode row = (retained row \<and> \<not> isl (decode_row decode row))"

definition failed :: "decoder \<Rightarrow> pydict \<Rightarrow> bool" where
  "failed decode row = (retained row \<and> isl (decode_row decode row))"

definition log_line :: "decoder \<Rightarrow> pydict \<Rightarrow> string" where
  "log_line decode row = ''Error parsing signal: '' @ str_of (projl (decode_row decode row))"

definition record_for :: "decoder \<Rightarrow> pydict \<Rightarrow> sample" where
  "record_for decode row =
     (case projr (decode_row decode row) of
        (vx, vy, vz) \<Rightarrow>
          \<lparr>s_x = vx, s_y = vy, s_z = vz, s_timestamp = dict_get row ''timestamp'' JNull\<rparr>)"

text \<open>
  A payload that is an object: a dict as it stands, or text that \<open>json.loads\<close> turns
  into a dict.
\<close>

definition payload_object :: "decoder \<Rightarrow> json \<Rightarrow> pydict \<Rightarrow> bool" where
  "payload_object decode p d =
     (p = JObj d \<or> (\<exists>s. p = JStr s \<and> json_loads decode (JStr s) = Inr (JObj d)))"


text \<open>
  The triple \<open>t\<close> placed between what the rows before and the rows after contribute.
\<close>

definition spliced ::
  "channels \<Rightarrow> json \<times> json \<times> json \<Rightarrow> channels \<Rightarrow> json list \<times> json list \<times> json list" where
  "spliced b t a =
     (ch_xs b @ fst t # ch_xs a, ch_ys b @ fst (snd t) # ch_ys a, ch_zs b @ snd (snd t) # ch_zs a)"

subsection \<open>Sample inputs\<close>

text \<open>
  A three-row sheet whose second row has an empty \<open>Notes\<close> cell (read as NaN) and whose
  third row has an infinite \<open>eID\<close>.
\<close>

definition sheet_row :: "cell \<Rightarrow> string \<Rightarrow> cell \<Rightarrow> cell \<Rightarrow> row" where
  "sheet_row ind engl eid notes =
     map_of [(''eInd'', ind), (''eDescriptionENGL'', CStr engl),
             (''eDescriptionSLO'', CStr ''opis''), (''eID'', eid),
             (''eDescriptionButt'', CStr ''B''), (''Notes'', notes)]"

definition sample_sheet :: "row list" where
  "sample_sheet =
     [sheet_row (CInt 1) ''tap'' (CFloat (Finite 10)) (CStr ''ok''),
      sheet_row (CInt 2) ''swipe'' (CFloat (Finite 20)) (CFloat NaN),
      sheet_row (CInt 3) ''pinch'' (CFloat PosInf) (CStr ''late'')]"

definition sample_excel :: "string \<Rightarrow> py_error + row list" where
  "sample_excel path =
     (if path = ''events.xlsx'' then Inr sample_sheet
      else Inl (OSError ''No such file or directory''))"

text \<open>The dict literals of the three rows, before the replacement loop.\<close>

definition sample_records :: "event_data list" where
  "sample_records =
    [[(''e_ind'', CInt 1), (''e_description_engl'', CStr ''tap''),
      (''e_description_slo'', CStr ''opis''), (''e_id'', CFloat (Finite 10)),
      (''e_description_butt'', CStr ''B''), (''notes'', CStr ''ok'')],
     [(''e_ind'', CInt 2), (''e_description_engl'', CStr ''swipe''),
      (''e_description_slo'', CStr ''opis''), (''e_id'', CFloat (Finite 20)),
      (''e_description_butt'', CStr ''B''), (''notes'', CFloat NaN)],
     [(''e_ind'', CInt 3), (''e_description_engl'', CStr ''pinch''),
      (''e_description_slo'', CStr ''opis''), (''e_id'', CFloat PosInf),
      (''e_description_butt'', CStr ''B''), (''notes'', CStr ''late'')]]"

text \<open>A remote table that accepts every record, and one that rejects a null \<open>e_id\<close>.\<close>

definition accepting_table :: "insert_call list inserter" where
  "accepting_table db c = Inr (db @ [c])"

definition strict_table :: "insert_call list inserter" where
  "strict_table db c =
     (if map_of (ic_payload c) ''e_id'' = Some CNone
      then Inl (APIError ''null value in column e_id'')
      else Inr (db @ [c]))"


text \<open>
  A decoder agreeing with \<open>json.loads\<close> on four texts and rejecting every other, and
  readings whose payloads are a dict, text of an object without \<open>z\<close>, text of an array,
  text that is no JSON, the empty text, no payload at all, the empty dict, and text of
  the empty object.
\<close>

definition sample_decoder :: decoder where
  "sample_decoder s =
     (if s = ''{\"x\": 1, \"y\": 2, \"z\": 3}''
        then Inr (JObj [(''x'', JInt 1), (''y'', JInt 2), (''z'', JInt 3)])
      else if s = ''{\"x\": 4, \"y\": 5}''
        then Inr (JObj [(''x'', JInt 4), (''y'', JInt 5)])
      else if s = ''[1, 2, 3]''
        then Inr (JArr [JInt 1, JInt 2, JInt 3])
      else if s = ''{}''
        then Inr (JObj [])
      else Inl (JSONDecodeError ''Expecting value: line 1 column 1 (char 0)''))"

definition reading_dict :: pydict where
  "reading_dict =
     [(''timestamp'', JStr ''2024-05-01T10:00:00''),
      (''data'', JObj [(''x'', JInt 1), (''y'', JInt 2), (''z'', JInt 3)])]"

definition reading_text :: pydict where
  "reading_text =
     [(''timestamp'', JStr ''2024-05-01T10:00:01''), (''data'', JStr ''{\"x\": 4, \"y\": 5}'')]"

definition reading_array :: pydict where
  "reading_array =
     [(''timestamp'', JStr ''2024-05-01T10:00:02''), (''data'', JStr ''[1, 2, 3]'')]"

definition reading_malformed :: pydict where
  "reading_malformed =
     [(''timestamp'', JStr ''2024-05-01T10:00:03''), (''data'', JStr ''not json'')]"

definition reading_empty :: pydict where
  "reading_empty = [(''timestamp'', JStr ''2024-05-01T10:00:04''), (''data'', JStr [])]"


definition reading_empty_dict :: pydict where
  "reading_empty_dict = [(''timestamp'', JStr ''2024-05-01T10:00:06''), (''data'', JObj [])]"

definition reading_braces :: pydict where
  "reading_braces = [(''timestamp'', JStr ''2024-05-01T10:00:07''), (''data'', JStr ''{}'')]"


text \<open>
  A service with no readings at all, one with accelerometer readings only, and a
  charting library that always succeeds.
\<close>

definition empty_service :: executor where
  "empty_service q = Inr []"

definition accel_only_service :: executor where
  "accel_only_service q =
     (if (''sensor_type_id'', ''eq'', ''3b48eed5-6ece-4eb8-8c88-b5e645839385'') \<in> set (q_filters q)
      then Inr [reading_dict, reading_text]
      else Inr [])"

definition always_renders :: renderer where
  "always_renders df title filename = None"


section \<open>Properties of the importer\<close>

lemma bindE_Inr_iff: "bindE m f = Inr r \<longleftrightarrow> (\<exists>v. m = Inr v \<and> f v = Inr r)"
  by (cases m) (simp_all add: bindE_def)

lemma bindE_simps [simp]: "bindE (Inl e) f = Inl e" "bindE (Inr v) f = f v"
  by (simp_all add: bindE_def)

lemma getitem_Inr_iff: "getitem row c = Inr v \<longleftrightarrow> row c = Some v"
  by (simp add: getitem_def split: option.splits)

lemma build_event_data_Inr:
  "build_event_data row = Inr d \<longleftrightarrow>
     (\<exists>v1 v2 v3 v4 v5 v6.
        row ''eInd'' = Some v1 \<and> row ''eDescriptionENGL'' = Some v2 \<and>
        row ''eDescriptionSLO'' = Some v3 \<and> row ''eID'' = Some v4 \<and>
        row ''eDescriptionButt'' = Some v5 \<and> row ''Notes'' = Some v6 \<and>
        d = [(''e_ind'', v1), (''e_description_engl'', v2), (''e_description_slo'', v3),
             (''e_id'', v4), (''e_description_butt'', v5), (''notes'', v6)])"
  unfolding build_event_data_def bindE_Inr_iff getitem_Inr_iff by auto

lemma setitem_at:
  "k \<notin> fst ` set p \<Longrightarrow> setitem (p @ (k, v) # r) k w = p @ (k, w) # r"
  by (induction p) auto

text \<open>With distinct keys the loop rewrites each entry where it stands.\<close>

lemma replace_loop_map:
  "distinct (map fst (p @ items)) \<Longrightarrow>
   replace_loop items (p @ items) = p @ map replace_entry items"
proof (induction items arbitrary: p)
  case Nil
  then show ?case by simp
next
  case (Cons kv items)
  obtain k v where kv: "kv = (k, v)" by (cases kv)
  from Cons.prems kv have notin: "k \<notin> fst ` set p" by auto
  from Cons.prems kv have d1: "distinct (map fst ((p @ [(k, v)]) @ items))" by simp
  from Cons.prems kv have d2: "distinct (map fst ((p @ [(k, CNone)]) @ items))" by simp
  show ?case
  proof (cases "replace_cond v")
    case True
    have "replace_loop (kv # items) (p @ kv # items)
            = replace_loop items ((p @ [(k, CNone)]) @ items)"
      using True kv setitem_at [OF notin] by simp
    also have "\<dots> = (p @ [(k, CNone)]) @ map replace_entry items"
      by (rule Cons.IH [OF d2])
    finally show ?thesis using True kv by (simp add: replace_entry_def)
  next
    case False
    have "replace_loop (kv # items) (p @ kv # items)
            = replace_loop items ((p @ [(k, v)]) @ items)"
      using False kv by simp
    also have "\<dots> = (p @ [(k, v)]) @ map replace_entry items"
      by (rule Cons.IH [OF d1])
    finally show ?thesis using False kv by (simp add: replace_entry_def)
  qed
qed

lemma replace_nonfinite_map:
  "distinct (map fst d) \<Longrightarrow> replace_nonfinite d = map replace_entry d"
  using replace_loop_map [of "[]" d] by (simp add: replace_nonfinite_def)

lemma field_ok_replace: "field_ok v (if replace_cond v then CNone else v)"
  by (cases v rule: pd_isna.cases) (auto simp: field_ok_def replace_cond_def non_finite_def)

lemma replace_entry_sel:
  "fst (replace_entry (k, v)) = k" "field_ok v (snd (replace_entry (k, v)))"
  using field_ok_replace [of v] by (auto simp: replace_entry_def)

lemma record_ok_insert_of:
  assumes "build_event_data row = Inr d"
  shows "record_ok row (ic_payload (insert_of d))"
proof -
  from assms obtain v1 v2 v3 v4 v5 v6 where
    r: "row ''eInd'' = Some v1" "row ''eDescriptionENGL'' = Some v2"
       "row ''eDescriptionSLO'' = Some v3" "row ''eID'' = Some v4"
       "row ''eDescriptionButt'' = Some v5" "row ''Notes'' = Some v6"
    and d: "d = [(''e_ind'', v1), (''e_description_engl'', v2), (''e_description_slo'', v3),
                 (''e_id'', v4), (''e_description_butt'', v5), (''notes'', v6)]"
    unfolding build_event_data_Inr by blast
  have "distinct (map fst d)" unfolding d by simp
  then have "ic_payload (insert_of d) = map replace_entry d"
    by (simp add: insert_of_def replace_nonfinite_map)
  then show ?thesis
    unfolding record_ok_def event_columns_def d
    by (simp add: case_prod_beta r replace_entry_sel)
qed

lemma import_rows_calls_nth:
  "\<exists>cs'. calls (import_rows ins rows cs db) = cs @ cs' \<and> length cs' \<le> length rows \<and>
         (\<forall>i<length cs'. \<exists>d. build_event_data (rows ! i) = Inr d \<and> cs' ! i = insert_of d)"
proof (induction rows arbitrary: cs db)
  case Nil
  then show ?case by simp
next
  case (Cons row rows)
  show ?case
  proof (cases "build_event_data row")
    case (Inl e)
    then show ?thesis by simp
  next
    case (Inr d)
    note built = this
    show ?thesis
    proof (cases "ins db (insert_of d)")
      case (Inl e)
      with built have "calls (import_rows ins (row # rows) cs db) = cs @ [insert_of d]"
        by (simp add: insert_of_def)
      with built show ?thesis by simp
    next
      case (Inr db')
      with built have step: "import_rows ins (row # rows) cs db
                               = import_rows ins rows (cs @ [insert_of d]) db'"
        by (simp add: insert_of_def)
      from Cons.IH [of "cs @ [insert_of d]" db'] obtain cs' where
        c: "calls (import_rows ins rows (cs @ [insert_of d]) db') = (cs @ [insert_of d]) @ cs'"
        and l: "length cs' \<le> length rows"
        and n: "\<forall>i<length cs'. \<exists>d. build_event_data (rows ! i) = Inr d \<and> cs' ! i = insert_of d"
        by blast
      have "\<forall>i<length (insert_of d # cs').
              \<exists>d'. build_event_data ((row # rows) ! i) = Inr d' \<and>
                    (insert_of d # cs') ! i = insert_of d'"
      proof (intro allI impI)
        fix i assume i: "i < length (insert_of d # cs')"
        show "\<exists>d'. build_event_data ((row # rows) ! i) = Inr d' \<and>
                   (insert_of d # cs') ! i = insert_of d'"
        proof (cases i)
          case 0
          with built show ?thesis by simp
        next
          case (Suc j)
          with i n show ?thesis by simp
        qed
      qed
      with step c l show ?thesis by (intro exI [of _ "insert_of d # cs'"]) simp
    qed
  qed
qed

lemma import_rows_all_ok:
  "map build_event_data rows = map Inr ds \<Longrightarrow>
   apply_inserts ins db (map insert_of ds) = Inr db' \<Longrightarrow>
   import_rows ins rows cs db = \<lparr>calls = cs @ map insert_of ds, remote = db', status = Exit 0\<rparr>"
proof (induction rows arbitrary: ds cs db)
  case Nil
  then show ?case by simp
next
  case (Cons row rows)
  from Cons.prems(1) obtain d ds' where ds: "ds = d # ds'"
    and b: "build_event_data row = Inr d" and rest: "map build_event_data rows = map Inr ds'"
    by (cases ds) auto
  from Cons.prems(2) ds obtain db1 where i1: "ins db (insert_of d) = Inr db1"
    and a: "apply_inserts ins db1 (map insert_of ds') = Inr db'"
    by (auto simp: bindE_Inr_iff)
  have "import_rows ins (row # rows) cs db = import_rows ins rows (cs @ [insert_of d]) db1"
    using b i1 by (simp add: insert_of_def)
  also have "\<dots> = \<lparr>calls = (cs @ [insert_of d]) @ map insert_of ds', remote = db', status = Exit 0\<rparr>"
    by (rule Cons.IH [OF rest a])
  finally show ?case by (simp add: ds)
qed

lemma import_rows_fail_at:
  "map build_event_data before = map Inr ds \<Longrightarrow>
   build_event_data row = Inr d \<Longrightarrow>
   apply_inserts ins db (map insert_of ds) = Inr dbk \<Longrightarrow>
   ins dbk (insert_of d) = Inl e \<Longrightarrow>
   import_rows ins (before @ row # after) cs db =
     \<lparr>calls = cs @ map insert_of ds @ [insert_of d], remote = dbk, status = Uncaught e\<rparr>"
proof (induction before arbitrary: ds cs db)
  case Nil
  then show ?case by (simp add: insert_of_def)
next
  case (Cons r before)
  from Cons.prems(1) obtain d0 ds' where ds: "ds = d0 # ds'"
    and b: "build_event_data r = Inr d0" and rest: "map build_event_data before = map Inr ds'"
    by (cases ds) auto
  from Cons.prems(3) ds obtain db1 where i1: "ins db (insert_of d0) = Inr db1"
    and a: "apply_inserts ins db1 (map insert_of ds') = Inr dbk"
    by (auto simp: bindE_Inr_iff)
  have "import_rows ins ((r # before) @ row # after) cs db
          = import_rows ins (before @ row # after) (cs @ [insert_of d0]) db1"
    using b i1 by (simp add: insert_of_def)
  also have "\<dots> = \<lparr>calls = (cs @ [insert_of d0]) @ map insert_of ds' @ [insert_of d],
                      remote = dbk, status = Uncaught e\<rparr>"
    by (rule Cons.IH [OF rest Cons.prems(2) a Cons.prems(4)])
  finally show ?case by (simp add: ds)
qed

subsection \<open>Claims about the importer\<close>

text \<open>
  C1. Every record the importer submits comes from the row at the same position, goes to
  the table \<open>event_codes\<close>, and holds the six fields in order, each field being null
  where the row's cell is NaN or an infinity, the cell itself where the cell is a present
  value that is not infinite, and never NaN or infinite.
\<close>

theorem importer_nulls_nonfinite:
  assumes "read_excel xlsx_path = Inr rows"
    and "i < length (calls (importer read_excel ins db xlsx_path))"
  shows "i < length rows \<and>
         ic_table (calls (importer read_excel ins db xlsx_path) ! i) = ''event_codes'' \<and>
         record_ok (rows ! i) (ic_payload (calls (importer read_excel ins db xlsx_path) ! i))"
proof -
  from import_rows_calls_nth [of ins rows "[]" db] obtain cs' where
    c: "calls (import_rows ins rows [] db) = cs'"
    and l: "length cs' \<le> length rows"
    and n: "\<forall>i<length cs'. \<exists>d. build_event_data (rows ! i) = Inr d \<and> cs' ! i = insert_of d"
    by auto
  from assms c have cs: "calls (importer read_excel ins db xlsx_path) = cs'"
    by (simp add: importer_def)
  with assms(2) have i: "i < length cs'" by simp
  with n obtain d where d: "build_event_data (rows ! i) = Inr d" "cs' ! i = insert_of d"
    by blast
  from record_ok_insert_of [OF d(1)] d(2) i l cs show ?thesis
    by (simp add: insert_of_def)
qed

theorem importer_nulls_nonfinite_witness:
  "sample_excel ''events.xlsx'' = Inr sample_sheet \<and>
   1 < length (calls (importer sample_excel accepting_table [] ''events.xlsx'')) \<and>
   record_ok (sample_sheet ! 1)
     (ic_payload (calls (importer sample_excel accepting_table [] ''events.xlsx'') ! 1)) \<and>
   ic_payload (calls (importer sample_excel accepting_table [] ''events.xlsx'') ! 1) =
     [(''e_ind'', CInt 2), (''e_description_engl'', CStr ''swipe''),
      (''e_description_slo'', CStr ''opis''), (''e_id'', CFloat (Finite 20)),
      (''e_description_butt'', CStr ''B''), (''notes'', CNone)] \<and>
   ic_payload (calls (importer sample_excel accepting_table [] ''events.xlsx'') ! 2) =
     [(''e_ind'', CInt 3), (''e_description_engl'', CStr ''pinch''),
      (''e_description_slo'', CStr ''opis''), (''e_id'', CNone),
      (''e_description_butt'', CStr ''B''), (''notes'', CStr ''late'')]"
proof -
  have h1: "sample_excel ''events.xlsx'' = Inr sample_sheet"
    by (simp add: sample_excel_def)
  have h2: "1 < length (calls (importer sample_excel accepting_table [] ''events.xlsx''))"
    by code_simp
  have p1: "ic_payload (calls (importer sample_excel accepting_table [] ''events.xlsx'') ! 1) =
     [(''e_ind'', CInt 2), (''e_description_engl'', CStr ''swipe''),
      (''e_description_slo'', CStr ''opis''), (''e_id'', CFloat (Finite 20)),
      (''e_description_butt'', CStr ''B''), (''notes'', CNone)]"
    by code_simp
  have p2: "ic_payload (calls (importer sample_excel accepting_table [] ''events.xlsx'') ! 2) =
     [(''e_ind'', CInt 3), (''e_description_engl'', CStr ''pinch''),
      (''e_description_slo'', CStr ''opis''), (''e_id'', CNone),
      (''e_description_butt'', CStr ''B''), (''notes'', CStr ''late'')]"
    by code_simp
  from importer_nulls_nonfinite
         [where read_excel = sample_excel and xlsx_path = "''events.xlsx''", OF h1 h2] h1 h2 p1 p2 show ?thesis by blast
qed

text \<open>
  C2. When the sheet has \<open>N\<close> rows, each with the six columns, and every insert
  succeeds, the importer issues exactly \<open>N\<close> calls, the call for each row in row order,
  each carrying one record, and ends normally.
\<close>

theorem importer_one_insert_per_row:
  assumes "read_excel xlsx_path = Inr rows"
    and "map build_event_data rows = map Inr ds"
    and "apply_inserts ins db (map insert_of ds) = Inr db'"
  shows "calls (importer read_excel ins db xlsx_path) = map insert_of ds \<and>
         length (calls (importer read_excel ins db xlsx_path)) = length rows \<and>
         remote (importer read_excel ins db xlsx_path) = db' \<and>
         status (importer read_excel ins db xlsx_path) = Exit 0"
proof -
  have "importer read_excel ins db xlsx_path = import_rows ins rows [] db"
    using assms(1) by (simp add: importer_def)
  also have "\<dots> = \<lparr>calls = [] @ map insert_of ds, remote = db', status = Exit 0\<rparr>"
    by (rule import_rows_all_ok [OF assms(2,3)])
  finally have run: "importer read_excel ins db xlsx_path
                       = \<lparr>calls = map insert_of ds, remote = db', status = Exit 0\<rparr>"
    by simp
  from assms(2) have "length rows = length ds"
    by (metis length_map)
  with run show ?thesis by simp
qed

theorem importer_one_insert_per_row_witness:
  "sample_excel ''events.xlsx'' = Inr sample_sheet \<and>
   map build_event_data sample_sheet = map Inr sample_records \<and>
   apply_inserts accepting_table [] (map insert_of sample_records)
     = Inr (map insert_of sample_records) \<and>
   calls (importer sample_excel accepting_table [] ''events.xlsx'')
     = map insert_of sample_records \<and>
   length (calls (importer sample_excel accepting_table [] ''events.xlsx'')) = 3 \<and>
   status (importer sample_excel accepting_table [] ''events.xlsx'') = Exit 0"
proof -
  have h1: "sample_excel ''events.xlsx'' = Inr sample_sheet"
    by (simp add: sample_excel_def)
  have h2: "map build_event_data sample_sheet = map Inr sample_records"
    by code_simp
  have h3: "apply_inserts accepting_table [] (map insert_of sample_records)
              = Inr (map insert_of sample_records)"
    by (simp add: accepting_table_def sample_records_def)
  have l: "length sample_sheet = 3" "length sample_records = 3"
    by (simp_all add: sample_sheet_def sample_records_def)
  from importer_one_insert_per_row
         [where read_excel = sample_excel and xlsx_path = "''events.xlsx''", OF h1 h2 h3] h1 h2 h3 l show ?thesis by simp
qed

text \<open>
  C6. When the inserts of the rows before row \<open>k\<close> have completed and the insert of row
  \<open>k\<close> raises, the run has issued exactly \<open>k\<close> calls (none for a later row), the
  exception ends the script uncaught, and the remote state is the one the completed
  inserts left.
\<close>

theorem importer_fail_fast:
  assumes "read_excel xlsx_path = Inr (before @ row # after)"
    and "map build_event_data before = map Inr ds"
    and "build_event_data row = Inr d"
    and "apply_inserts ins db (map insert_of ds) = Inr dbk"
    and "ins dbk (insert_of d) = Inl e"
  shows "calls (importer read_excel ins db xlsx_path) = map insert_of ds @ [insert_of d] \<and>
         length (calls (importer read_excel ins db xlsx_path)) = length before + 1 \<and>
         remote (importer read_excel ins db xlsx_path) = dbk \<and>
         status (importer read_excel ins db xlsx_path) = Uncaught e"
proof -
  have "importer read_excel ins db xlsx_path = import_rows ins (before @ row # after) [] db"
    using assms(1) by (simp add: importer_def)
  also have "\<dots> = \<lparr>calls = [] @ map insert_of ds @ [insert_of d], remote = dbk,
                      status = Uncaught e\<rparr>"
    by (rule import_rows_fail_at [OF assms(2-5)])
  finally have run: "importer read_excel ins db xlsx_path
     = \<lparr>calls = map insert_of ds @ [insert_of d], remote = dbk, status = Uncaught e\<rparr>"
    by simp
  from assms(2) have "length before = length ds"
    by (metis length_map)
  with run show ?thesis by simp
qed

theorem importer_fail_fast_witness:
  "sample_excel ''events.xlsx'' = Inr (take 2 sample_sheet @ sample_sheet ! 2 # []) \<and>
   map build_event_data (take 2 sample_sheet) = map Inr (take 2 sample_records) \<and>
   build_event_data (sample_sheet ! 2) = Inr (sample_records ! 2) \<and>
   apply_inserts strict_table [] (map insert_of (take 2 sample_records))
     = Inr (map insert_of (take 2 sample_records)) \<and>
   strict_table (map insert_of (take 2 sample_records)) (insert_of (sample_records ! 2))
     = Inl (APIError ''null value in column e_id'') \<and>
   length (calls (importer sample_excel strict_table [] ''events.xlsx'')) = 3 \<and>
   remote (importer sample_excel strict_table [] ''events.xlsx'')
     = map insert_of (take 2 sample_records) \<and>
   status (importer sample_excel strict_table [] ''events.xlsx'')
     = Uncaught (APIError ''null value in column e_id'')"
proof -
  have h1: "sample_excel ''events.xlsx'' = Inr (take 2 sample_sheet @ sample_sheet ! 2 # [])"
    by (simp add: sample_excel_def sample_sheet_def)
  have h2: "map build_event_data (take 2 sample_sheet) = map Inr (take 2 sample_records)"
    by code_simp
  have h3: "build_event_data (sample_sheet ! 2) = Inr (sample_records ! 2)"
    by code_simp
  have h4: "apply_inserts strict_table [] (map insert_of (take 2 sample_records))
              = Inr (map insert_of (take 2 sample_records))"
    by code_simp
  have h5: "strict_table (map insert_of (take 2 sample_records)) (insert_of (sample_records ! 2))
              = Inl (APIError ''null value in column e_id'')"
    by code_simp
  have l: "length sample_sheet = 3" "length sample_records = 3"
    by (simp_all add: sample_sheet_def sample_records_def)
  from importer_fail_fast
         [where read_excel = sample_excel and xlsx_path = "''events.xlsx''", OF h1 h2 h3 h4 h5] h1 h2 h3 h4 h5 l show ?thesis by simp
qed



section \<open>Properties of the decoders\<close>

lemma signal_triple_cases:
  "signal_triple signal =
     (case signal of
        JObj d \<Rightarrow> Inr (dict_get d ''x'' (JInt 0), dict_get d ''y'' (JInt 0), dict_get d ''z'' (JInt 0))
      | _ \<Rightarrow> Inl (AttributeError
                 (quoted (type_name signal) @ '' object has no attribute '' @ quoted ''get'')))"
  by (cases signal) (simp_all add: signal_triple_def signal_get_def)

lemma try_body_decode_row:
  "try_body decode (payload row) st =
     (case decode_row decode row of
        Inl e \<Rightarrow> Inl (e, st)
      | Inr t \<Rightarrow> Inr (st\<lparr>ch_xs := ch_xs st @ [fst t],
                          ch_ys := ch_ys st @ [fst (snd t)],
                          ch_zs := ch_zs st @ [snd (snd t)]\<rparr>))"
proof (cases "decode_signal decode (payload row)")
  case (Inl e)
  then show ?thesis by (simp add: try_body_def decode_row_def)
next
  case (Inr signal)
  then show ?thesis
    by (cases signal)
       (simp_all add: try_body_def decode_row_def signal_triple_cases signal_get_def Let_def)
qed

lemma make_record_decode_row:
  "bindE (decode_signal decode (payload row)) (make_record row) =
     (case decode_row decode row of
        Inl e \<Rightarrow> Inl e
      | Inr t \<Rightarrow> Inr (record_for decode row))"
proof (cases "decode_signal decode (payload row)")
  case (Inl e)
  then show ?thesis by (simp add: decode_row_def)
next
  case (Inr signal)
  then show ?thesis
    by (cases signal)
       (simp_all add: decode_row_def record_for_def make_record_def signal_triple_cases
          signal_get_def)
qed

lemma parse_signals_loop_closed:
  "parse_signals_loop decode data st =
     \<lparr>ch_xs = ch_xs st @ map (\<lambda>row. fst (projr (decode_row decode row))) (filter (kept decode) data),
      ch_ys = ch_ys st @ map (\<lambda>row. fst (snd (projr (decode_row decode row)))) (filter (kept decode) data),
      ch_zs = ch_zs st @ map (\<lambda>row. snd (snd (projr (decode_row decode row)))) (filter (kept decode) data),
      ch_out = ch_out st @ map (log_line decode) (filter (failed decode) data)\<rparr>"
proof (induction data arbitrary: st)
  case Nil
  then show ?case by simp
next
  case (Cons row data)
  show ?case
  proof (cases "retained row")
    case False
    then have "parse_signals_loop decode (row # data) st = parse_signals_loop decode data st"
      by (simp add: retained_def payload_def)
    with False Cons.IH [of st] show ?thesis by (simp add: kept_def failed_def)
  next
    case True
    show ?thesis
    proof (cases "decode_row decode row")
      case (Inl e)
      with True have "parse_signals_loop decode (row # data) st =
          parse_signals_loop decode data (st\<lparr>ch_out := ch_out st @ [log_line decode row]\<rparr>)"
        using try_body_decode_row [of decode row st]
        by (simp add: retained_def payload_def log_line_def)
      with True Inl Cons.IH [of "st\<lparr>ch_out := ch_out st @ [log_line decode row]\<rparr>"]
      show ?thesis by (simp add: kept_def failed_def)
    next
      case (Inr t)
      let ?st = "st\<lparr>ch_xs := ch_xs st @ [fst t], ch_ys := ch_ys st @ [fst (snd t)],
                      ch_zs := ch_zs st @ [snd (snd t)]\<rparr>"
      from True Inr have "parse_signals_loop decode (row # data) st =
          parse_signals_loop decode data ?st"
        using try_body_decode_row [of decode row st]
        by (simp add: retained_def payload_def)
      with True Inr Cons.IH [of ?st]
      show ?thesis by (simp add: kept_def failed_def)
    qed
  qed
qed

lemma to_dataframe_loop_closed:
  "to_dataframe_loop decode data recs =
     (case List.find (failed decode) data of
        Some row \<Rightarrow> Inl (projl (decode_row decode row))
      | None \<Rightarrow> Inr (recs @ map (record_for decode) (filter retained data)))"
proof (induction data arbitrary: recs)
  case Nil
  then show ?case by simp
next
  case (Cons row data)
  show ?case
  proof (cases "retained row")
    case False
    then have step: "to_dataframe_loop decode (row # data) recs
                       = to_dataframe_loop decode data recs"
      by (simp add: retained_def payload_def)
    from False have f: "List.find (failed decode) (row # data) = List.find (failed decode) data"
      and g: "filter retained (row # data) = filter retained data"
      by (simp_all add: failed_def)
    show ?thesis unfolding step f g by (rule Cons.IH)
  next
    case True
    show ?thesis
    proof (cases "decode_row decode row")
      case (Inl e)
      with True have step: "to_dataframe_loop decode (row # data) recs = Inl e"
        using make_record_decode_row [of decode row]
        by (simp add: retained_def payload_def)
      from True Inl have f: "List.find (failed decode) (row # data) = Some row"
        by (simp add: failed_def)
      show ?thesis unfolding step f using Inl by simp
    next
      case (Inr t)
      with True have step: "to_dataframe_loop decode (row # data) recs =
          to_dataframe_loop decode data (recs @ [record_for decode row])"
        using make_record_decode_row [of decode row]
        by (simp add: retained_def payload_def)
      from True Inr have f: "List.find (failed decode) (row # data) = List.find (failed decode) data"
        and g: "recs @ map (record_for decode) (filter retained (row # data))
                  = (recs @ [record_for decode row]) @ map (record_for decode) (filter retained data)"
        by (simp_all add: failed_def)
      show ?thesis unfolding step f g by (rule Cons.IH)
    qed
  qed
qed


lemma find_append:
  "List.find P (xs @ ys) = (case List.find P xs of None \<Rightarrow> List.find P ys | Some x \<Rightarrow> Some x)"
  by (induction xs) simp_all

lemma find_filter_weaker:
  "(\<And>x. P x \<Longrightarrow> Q x) \<Longrightarrow> List.find P (filter Q xs) = List.find P xs"
  by (induction xs) auto

lemma parse_signals_closed:
  "parse_signals decode data =
     \<lparr>ch_xs = map (\<lambda>row. fst (projr (decode_row decode row))) (filter (kept decode) data),
      ch_ys = map (\<lambda>row. fst (snd (projr (decode_row decode row)))) (filter (kept decode) data),
      ch_zs = map (\<lambda>row. snd (snd (projr (decode_row decode row)))) (filter (kept decode) data),
      ch_out = map (log_line decode) (filter (failed decode) data)\<rparr>"
  unfolding parse_signals_def parse_signals_loop_closed by simp

lemma parse_signals_to_dataframe_closed:
  "parse_signals_to_dataframe decode data =
     (case List.find (failed decode) data of
        Some row \<Rightarrow> Inl (projl (decode_row decode row))
      | None \<Rightarrow> Inr (DataFrame (map (record_for decode) (filter retained data))))"
  unfolding parse_signals_to_dataframe_def to_dataframe_loop_closed
  by (simp split: option.splits)

lemma try_body_cases:
  "try_body decode p st =
     (case bindE (decode_signal decode p) signal_triple of
        Inl e \<Rightarrow> Inl (e, st)
      | Inr t \<Rightarrow> Inr (st\<lparr>ch_xs := ch_xs st @ [fst t],
                          ch_ys := ch_ys st @ [fst (snd t)],
                          ch_zs := ch_zs st @ [snd (snd t)]\<rparr>))"
proof -
  have "payload [(''data'', p)] = p" by (simp add: payload_def dict_get_def)
  with try_body_decode_row [of decode "[(''data'', p)]" st] show ?thesis
    by (simp add: decode_row_def)
qed

lemma skipped_row_filters:
  assumes "\<not> retained row"
  shows "filter (kept decode) (before @ row # after) = filter (kept decode) (before @ after)"
    and "filter (failed decode) (before @ row # after) = filter (failed decode) (before @ after)"
    and "filter retained (before @ row # after) = filter retained (before @ after)"
    and "List.find (failed decode) (before @ row # after) = List.find (failed decode) (before @ after)"
  using assms by (simp_all add: kept_def failed_def find_append split: option.splits)

lemma empty_payload_not_retained:
  "map_of row ''data'' \<in> {None, Some JNull, Some (JStr []), Some (JObj [])} \<Longrightarrow> \<not> retained row"
  by (auto simp: retained_def payload_def dict_get_def)

lemma retained_filters:
  "filter (kept decode) (filter retained data) = filter (kept decode) data"
  "filter (failed decode) (filter retained data) = filter (failed decode) data"
  "filter retained (filter retained data) = filter retained data"
  "List.find (failed decode) (filter retained data) = List.find (failed decode) data"
proof -
  show "filter (kept decode) (filter retained data) = filter (kept decode) data"
    by (induction data) (simp_all add: kept_def)
  show "filter (failed decode) (filter retained data) = filter (failed decode) data"
    by (induction data) (simp_all add: failed_def)
  show "filter retained (filter retained data) = filter retained data"
    by simp
  show "List.find (failed decode) (filter retained data) = List.find (failed decode) data"
    by (rule find_filter_weaker) (simp add: failed_def)
qed


lemma object_row_decodes:
  assumes "map_of row ''data'' = Some p" and "payload_object decode p d" and "truthy p"
  shows "retained row"
    and "decode_row decode row =
           Inr (dict_get d ''x'' (JInt 0), dict_get d ''y'' (JInt 0), dict_get d ''z'' (JInt 0))"
proof -
  from assms(1) have p: "payload row = p" by (simp add: payload_def dict_get_def)
  from assms(2) consider "p = JObj d"
    | s where "p = JStr s" "json_loads decode (JStr s) = Inr (JObj d)"
    by (auto simp: payload_object_def)
  then have "truthy p \<and> decode_signal decode p = Inr (JObj d)"
  proof cases
    case 1
    with assms(3) show ?thesis by (simp add: decode_signal_def)
  next
    case 2
    with assms(3) show ?thesis by (simp add: decode_signal_def)
  qed
  with p show "retained row"
    and "decode_row decode row =
           Inr (dict_get d ''x'' (JInt 0), dict_get d ''y'' (JInt 0), dict_get d ''z'' (JInt 0))"
    by (simp_all add: retained_def decode_row_def signal_triple_cases)
qed

lemma kept_row_splice:
  assumes "retained row" and "decode_row decode row = Inr (vx, vy, vz)"
  shows "returned (parse_signals decode (before @ row # after)) =
           (ch_xs (parse_signals decode before) @ vx # ch_xs (parse_signals decode after),
            ch_ys (parse_signals decode before) @ vy # ch_ys (parse_signals decode after),
            ch_zs (parse_signals decode before) @ vz # ch_zs (parse_signals decode after))"
    and "ch_out (parse_signals decode (before @ row # after)) =
           ch_out (parse_signals decode before) @ ch_out (parse_signals decode after)"
  using assms unfolding parse_signals_closed returned_def
  by (simp_all add: kept_def failed_def)

lemma failed_row_splice:
  assumes "retained row" and "decode_row decode row = Inl e"
  shows "returned (parse_signals decode (before @ row # after)) =
           returned (parse_signals decode (before @ after))"
    and "ch_out (parse_signals decode (before @ row # after)) =
           ch_out (parse_signals decode before) @ (''Error parsing signal: '' @ str_of e)
             # ch_out (parse_signals decode after)"
    and "\<exists>e'. parse_signals_to_dataframe decode (before @ row # after) = Inl e'"
    and "parse_signals_to_dataframe decode before = Inr df \<Longrightarrow>
         parse_signals_to_dataframe decode (before @ row # after) = Inl e"
proof -
  from assms have f: "failed decode row" and k: "\<not> kept decode row"
    by (simp_all add: failed_def kept_def)
  from f k show "returned (parse_signals decode (before @ row # after)) =
           returned (parse_signals decode (before @ after))"
    unfolding parse_signals_closed returned_def by simp
  from f k assms(2) show "ch_out (parse_signals decode (before @ row # after)) =
           ch_out (parse_signals decode before) @ (''Error parsing signal: '' @ str_of e)
             # ch_out (parse_signals decode after)"
    unfolding parse_signals_closed by (simp add: log_line_def)
  from f obtain r where "List.find (failed decode) (before @ row # after) = Some r"
    by (cases "List.find (failed decode) (before @ row # after)") (auto simp: find_None_iff)
  then show "\<exists>e'. parse_signals_to_dataframe decode (before @ row # after) = Inl e'"
    unfolding parse_signals_to_dataframe_closed by simp
  assume "parse_signals_to_dataframe decode before = Inr df"
  then have "List.find (failed decode) before = None"
    unfolding parse_signals_to_dataframe_closed by (simp split: option.splits)
  with f have "List.find (failed decode) (before @ row # after) = Some row"
    by (simp add: find_append)
  with assms(2) show "parse_signals_to_dataframe decode (before @ row # after) = Inl e"
    unfolding parse_signals_to_dataframe_closed by simp
qed



subsection \<open>Claims about the decoders\<close>

text \<open>
  C9. For every input list, malformed payloads included, the three lists that
  \<open>parse_signals\<close> returns have the same length; and from any state the \<open>try\<close> body
  either raises with the three lists untouched or appends exactly one element to each.
\<close>

theorem parse_signals_equal_lengths:
  "length (ch_xs (parse_signals decode data)) = length (ch_ys (parse_signals decode data)) \<and>
   length (ch_ys (parse_signals decode data)) = length (ch_zs (parse_signals decode data)) \<and>
   ((\<exists>e. try_body decode p st = Inl (e, st)) \<or>
    (\<exists>vx vy vz. try_body decode p st =
        Inr (st\<lparr>ch_xs := ch_xs st @ [vx], ch_ys := ch_ys st @ [vy], ch_zs := ch_zs st @ [vz]\<rparr>)))"
proof -
  have "(\<exists>e. try_body decode p st = Inl (e, st)) \<or>
    (\<exists>vx vy vz. try_body decode p st =
        Inr (st\<lparr>ch_xs := ch_xs st @ [vx], ch_ys := ch_ys st @ [vy], ch_zs := ch_zs st @ [vz]\<rparr>))"
    unfolding try_body_cases
    by (cases "bindE (decode_signal decode p) signal_triple") auto
  then show ?thesis unfolding parse_signals_closed by simp
qed

theorem parse_signals_equal_lengths_witness:
  "length (ch_xs (parse_signals sample_decoder
      [reading_dict, reading_malformed, reading_array, reading_text])) = 2 \<and>
   length (ch_ys (parse_signals sample_decoder
      [reading_dict, reading_malformed, reading_array, reading_text])) = 2 \<and>
   length (ch_zs (parse_signals sample_decoder
      [reading_dict, reading_malformed, reading_array, reading_text])) = 2 \<and>
   length (ch_out (parse_signals sample_decoder
      [reading_dict, reading_malformed, reading_array, reading_text])) = 2"
proof -
  have x: "length (ch_xs (parse_signals sample_decoder
      [reading_dict, reading_malformed, reading_array, reading_text])) = 2"
    by code_simp
  have o: "length (ch_out (parse_signals sample_decoder
      [reading_dict, reading_malformed, reading_array, reading_text])) = 2"
    by code_simp
  note t = parse_signals_equal_lengths [of sample_decoder
      "[reading_dict, reading_malformed, reading_array, reading_text]" JNull
      "\<lparr>ch_xs = [], ch_ys = [], ch_zs = [], ch_out = []\<rparr>"]
  from t x have y: "length (ch_ys (parse_signals sample_decoder
      [reading_dict, reading_malformed, reading_array, reading_text])) = 2"
    by simp
  from t y have z: "length (ch_zs (parse_signals sample_decoder
      [reading_dict, reading_malformed, reading_array, reading_text])) = 2"
    by simp
  from x y z o show ?thesis by simp
qed

text \<open>
  C10. A row whose payload is absent, null, the empty text or the empty dict is skipped
  by both functions: with or without it in the input, each gives the same result
  (lists, printed lines, frame or exception). Only retained rows, those whose payload is
  non-empty, contribute: each function gives the same result on the retained rows alone.
\<close>

theorem empty_payload_rows_skipped:
  assumes "map_of row ''data'' \<in> {None, Some JNull, Some (JStr []), Some (JObj [])}"
  shows "parse_signals decode (before @ row # after) = parse_signals decode (before @ after) \<and>
         parse_signals_to_dataframe decode (before @ row # after)
           = parse_signals_to_dataframe decode (before @ after) \<and>
         parse_signals decode data = parse_signals decode (filter retained data) \<and>
         parse_signals_to_dataframe decode data
           = parse_signals_to_dataframe decode (filter retained data)"
proof -
  from assms have "\<not> retained row" by (rule empty_payload_not_retained)
  note skip = skipped_row_filters [OF this]
  show ?thesis
    unfolding parse_signals_closed parse_signals_to_dataframe_closed skip retained_filters
    by simp
qed

theorem empty_payload_rows_skipped_witness:
  "map_of reading_empty ''data'' \<in> {None, Some JNull, Some (JStr []), Some (JObj [])} \<and>
   parse_signals sample_decoder ([reading_dict] @ reading_empty # [reading_text])
     = parse_signals sample_decoder ([reading_dict] @ [reading_text]) \<and>
   returned (parse_signals sample_decoder ([reading_dict] @ reading_empty # [reading_text]))
     = ([JInt 1, JInt 4], [JInt 2, JInt 5], [JInt 3, JInt 0]) \<and>
   parse_signals_to_dataframe sample_decoder ([reading_dict] @ reading_empty # [reading_text])
     = parse_signals_to_dataframe sample_decoder ([reading_dict] @ [reading_text])"
proof -
  have h: "map_of reading_empty ''data'' \<in> {None, Some JNull, Some (JStr []), Some (JObj [])}"
    by (simp add: reading_empty_def)
  have r: "returned (parse_signals sample_decoder ([reading_dict] @ [reading_text]))
     = ([JInt 1, JInt 4], [JInt 2, JInt 5], [JInt 3, JInt 0])"
    by code_simp
  from empty_payload_rows_skipped [OF h, of sample_decoder "[reading_dict]" "[reading_text]"] h r
  show ?thesis by simp
qed


text \<open>
  C3 (amended). A row whose payload is an object, arriving as a dict or as text that \<open>json.loads\<close>
  turns into a dict, and passes the test \<open>if signal_json:\<close> (as every dict holding a
  key and every decodable text does) contributes exactly one triple to
  \<open>parse_signals\<close>, in its place among the other rows: the values stored under \<open>x\<close>,
  \<open>y\<close> and \<open>z\<close>, with the integer 0 for each key the object lacks.
\<close>

theorem parse_signals_triple:
  assumes "map_of row ''data'' = Some p" and "payload_object decode p d" and "truthy p"
  shows "returned (parse_signals decode (before @ row # after)) =
           spliced (parse_signals decode before)
             (dict_get d ''x'' (JInt 0), dict_get d ''y'' (JInt 0), dict_get d ''z'' (JInt 0))
             (parse_signals decode after) \<and>
         (\<forall>k v. map_of d k = Some v \<longrightarrow> dict_get d k (JInt 0) = v) \<and>
         (\<forall>k. map_of d k = None \<longrightarrow> dict_get d k (JInt 0) = JInt 0)"
proof -
  note dec = object_row_decodes [OF assms]
  from kept_row_splice(1) [OF dec] show ?thesis
    by (simp add: spliced_def dict_get_def)
qed

theorem parse_signals_triple_witness:
  "map_of reading_dict ''data'' = Some (JObj [(''x'', JInt 1), (''y'', JInt 2), (''z'', JInt 3)]) \<and>
   payload_object sample_decoder (JObj [(''x'', JInt 1), (''y'', JInt 2), (''z'', JInt 3)])
     [(''x'', JInt 1), (''y'', JInt 2), (''z'', JInt 3)] \<and>
   returned (parse_signals sample_decoder ([] @ reading_dict # [])) = ([JInt 1], [JInt 2], [JInt 3]) \<and>
   map_of reading_text ''data'' = Some (JStr ''{\"x\": 4, \"y\": 5}'') \<and>
   payload_object sample_decoder (JStr ''{\"x\": 4, \"y\": 5}'') [(''x'', JInt 4), (''y'', JInt 5)] \<and>
   returned (parse_signals sample_decoder ([] @ reading_text # [])) = ([JInt 4], [JInt 5], [JInt 0])"
proof -
  have g1: "map_of reading_text ''data'' = Some (JStr ''{\"x\": 4, \"y\": 5}'')"
    by (simp add: reading_text_def)
  have g2: "payload_object sample_decoder (JStr ''{\"x\": 4, \"y\": 5}'')
              [(''x'', JInt 4), (''y'', JInt 5)]"
    by (simp add: payload_object_def json_loads_def sample_decoder_def)
  have g3: "truthy (JStr ''{\"x\": 4, \"y\": 5}'')" by simp
  have h1: "map_of reading_dict ''data''
              = Some (JObj [(''x'', JInt 1), (''y'', JInt 2), (''z'', JInt 3)])"
    by (simp add: reading_dict_def)
  have h2: "payload_object sample_decoder (JObj [(''x'', JInt 1), (''y'', JInt 2), (''z'', JInt 3)])
     [(''x'', JInt 1), (''y'', JInt 2), (''z'', JInt 3)]"
    by (simp add: payload_object_def)
  have h3: "truthy (JObj [(''x'', JInt 1), (''y'', JInt 2), (''z'', JInt 3)])" by simp
  have e: "returned (parse_signals sample_decoder []) = ([], [], [])" by code_simp
  from parse_signals_triple [OF h1 h2 h3, of "[]" "[]"] e
  have a: "returned (parse_signals sample_decoder ([] @ reading_dict # []))
             = ([JInt 1], [JInt 2], [JInt 3])"
    by (simp add: spliced_def dict_get_def returned_def)
  from parse_signals_triple [OF g1 g2 g3, of "[]" "[]"] e
  have b: "returned (parse_signals sample_decoder ([] @ reading_text # []))
             = ([JInt 4], [JInt 5], [JInt 0])"
    by (simp add: spliced_def dict_get_def returned_def)
  from a b h1 h2 g1 g2 show ?thesis by simp
qed

text \<open>
  C3 as stated fails for the dict \<open>{}\<close>, an object that lacks \<open>z\<close> (and \<open>x\<close> and
  \<open>y\<close>): it does not pass \<open>if signal_json:\<close>, the row is skipped and no triple is
  produced, while the text \<open>{}\<close> of the same object yields \<open>(0, 0, 0)\<close>.
\<close>

theorem empty_dict_counterexample:
  "map_of reading_empty_dict ''data'' = Some (JObj []) \<and>
   payload_object sample_decoder (JObj []) [] \<and>
   map_of ([] :: pydict) ''z'' = None \<and>
   returned (parse_signals sample_decoder [reading_empty_dict]) = ([], [], []) \<and>
   map_of reading_braces ''data'' = Some (JStr ''{}'') \<and>
   json_loads sample_decoder (JStr ''{}'') = Inr (JObj []) \<and>
   returned (parse_signals sample_decoder [reading_braces]) = ([JInt 0], [JInt 0], [JInt 0])"
proof -
  have "payload_object sample_decoder (JObj []) []"
    by (simp add: payload_object_def)
  moreover have "map_of reading_empty_dict ''data'' = Some (JObj []) \<and>
   map_of ([] :: pydict) ''z'' = None \<and>
   returned (parse_signals sample_decoder [reading_empty_dict]) = ([], [], []) \<and>
   map_of reading_braces ''data'' = Some (JStr ''{}'') \<and>
   json_loads sample_decoder (JStr ''{}'') = Inr (JObj []) \<and>
   returned (parse_signals sample_decoder [reading_braces]) = ([JInt 0], [JInt 0], [JInt 0])"
    by code_simp
  ultimately show ?thesis by simp
qed

text \<open>
  C5 (amended). A row whose payload is non-empty text that \<open>json.loads\<close> rejects is
  skipped by \<open>parse_signals\<close>, which returns the lists it returns without the row and
  prints one line with the error in the row's place; \<open>parse_signals_to_dataframe\<close>
  on the same input raises, and raises that very error when the rows before it build a
  frame.
\<close>

theorem malformed_text_asymmetry:
  assumes "map_of row ''data'' = Some (JStr s)" and "s \<noteq> []"
    and "json_loads decode (JStr s) = Inl e"
  shows "returned (parse_signals decode (before @ row # after))
           = returned (parse_signals decode (before @ after)) \<and>
         ch_out (parse_signals decode (before @ row # after))
           = ch_out (parse_signals decode before) @ (''Error parsing signal: '' @ str_of e)
               # ch_out (parse_signals decode after) \<and>
         (\<exists>e'. parse_signals_to_dataframe decode (before @ row # after) = Inl e') \<and>
         ((\<exists>df. parse_signals_to_dataframe decode before = Inr df) \<longrightarrow>
            parse_signals_to_dataframe decode (before @ row # after) = Inl e)"
proof -
  from assms(1) have p: "payload row = JStr s" by (simp add: payload_def dict_get_def)
  with assms(2) have r: "retained row" by (simp add: retained_def)
  from p assms(3) have d: "decode_row decode row = Inl e"
    by (simp add: decode_row_def decode_signal_def)
  from failed_row_splice [OF r d] show ?thesis by blast
qed

theorem malformed_text_asymmetry_witness:
  "map_of reading_malformed ''data'' = Some (JStr ''not json'') \<and> ''not json'' \<noteq> [] \<and>
   json_loads sample_decoder (JStr ''not json'')
     = Inl (JSONDecodeError ''Expecting value: line 1 column 1 (char 0)'') \<and>
   returned (parse_signals sample_decoder ([reading_dict] @ reading_malformed # [reading_text]))
     = ([JInt 1, JInt 4], [JInt 2, JInt 5], [JInt 3, JInt 0]) \<and>
   ch_out (parse_signals sample_decoder ([reading_dict] @ reading_malformed # [reading_text]))
     = [''Error parsing signal: Expecting value: line 1 column 1 (char 0)''] \<and>
   parse_signals_to_dataframe sample_decoder ([reading_dict] @ reading_malformed # [reading_text])
     = Inl (JSONDecodeError ''Expecting value: line 1 column 1 (char 0)'')"
proof -
  have h1: "map_of reading_malformed ''data'' = Some (JStr ''not json'')"
    by (simp add: reading_malformed_def)
  have h2: "''not json'' \<noteq> []" by simp
  have h3: "json_loads sample_decoder (JStr ''not json'')
     = Inl (JSONDecodeError ''Expecting value: line 1 column 1 (char 0)'')"
    by (simp add: json_loads_def sample_decoder_def)
  have r: "returned (parse_signals sample_decoder ([reading_dict] @ [reading_text]))
     = ([JInt 1, JInt 4], [JInt 2, JInt 5], [JInt 3, JInt 0])"
    by code_simp
  have o: "ch_out (parse_signals sample_decoder [reading_dict]) = []"
      "ch_out (parse_signals sample_decoder [reading_text]) = []"
    by code_simp+
  have b: "\<exists>df. parse_signals_to_dataframe sample_decoder [reading_dict] = Inr df"
    by (simp add: parse_signals_to_dataframe_closed failed_def retained_def payload_def
          dict_get_def reading_dict_def decode_row_def decode_signal_def signal_triple_cases)
  from malformed_text_asymmetry [OF h1 h2 h3, of "[reading_dict]" "[reading_text]"] h1 h2 h3 r o b
  show ?thesis by simp
qed

text \<open>
  C5 as stated fails for the empty text: \<open>json.loads\<close> rejects it, yet neither function
  decodes it, \<open>parse_signals\<close> prints nothing and \<open>parse_signals_to_dataframe\<close>
  returns an empty frame.
\<close>

theorem empty_text_counterexample:
  "map_of reading_empty ''data'' = Some (JStr []) \<and>
   json_loads sample_decoder (JStr [])
     = Inl (JSONDecodeError ''Expecting value: line 1 column 1 (char 0)'') \<and>
   ch_out (parse_signals sample_decoder [reading_empty]) = [] \<and>
   parse_signals_to_dataframe sample_decoder [reading_empty] = Inr (DataFrame [])"
  by code_simp





section \<open>Properties of the script\<close>

text \<open>
  C7. For every date string, each fetch runs one request on \<open>sensor_data\<close> selecting
  every column, with exactly three filters in this order: equality of
  \<open>sensor_type_id\<close> with the function's fixed identifier, \<open>timestamp\<close> at or after
  the date followed by \<open>T00:00:00\<close>, and \<open>timestamp\<close> strictly before the date
  followed by \<open>T23:59:59\<close>; no row limit is set.
\<close>

theorem fetch_query_shape:
  "fetch_accelerometer_data execute date_str =
     execute \<lparr>q_table = ''sensor_data'', q_columns = ''*'',
              q_filters = [(''sensor_type_id'', ''eq'', ''3b48eed5-6ece-4eb8-8c88-b5e645839385''),
                           (''timestamp'', ''gte'', date_str @ ''T00:00:00''),
                           (''timestamp'', ''lt'', date_str @ ''T23:59:59'')],
              q_limit = None\<rparr> \<and>
   fetch_gyroscope_data execute date_str =
     execute \<lparr>q_table = ''sensor_data'', q_columns = ''*'',
              q_filters = [(''sensor_type_id'', ''eq'', ''d4ad2653-b430-40c2-9f47-bdc140119c57''),
                           (''timestamp'', ''gte'', date_str @ ''T00:00:00''),
                           (''timestamp'', ''lt'', date_str @ ''T23:59:59'')],
              q_limit = None\<rparr>"
  by (simp add: fetch_accelerometer_data_def fetch_gyroscope_data_def accelerometer_query_def
        gyroscope_query_def filter_q_def eq_q_def table_select_def)

theorem fetch_query_shape_witness:
  "fetch_accelerometer_data accel_only_service ''2024-05-01'' = Inr [reading_dict, reading_text] \<and>
   fetch_gyroscope_data accel_only_service ''2024-05-01'' = Inr [] \<and>
   q_filters (accelerometer_query ''2024-05-01'') =
     [(''sensor_type_id'', ''eq'', ''3b48eed5-6ece-4eb8-8c88-b5e645839385''),
      (''timestamp'', ''gte'', ''2024-05-01T00:00:00''),
      (''timestamp'', ''lt'', ''2024-05-01T23:59:59'')]"
proof -
  have q: "q_filters (accelerometer_query ''2024-05-01'') =
     [(''sensor_type_id'', ''eq'', ''3b48eed5-6ece-4eb8-8c88-b5e645839385''),
      (''timestamp'', ''gte'', ''2024-05-01T00:00:00''),
      (''timestamp'', ''lt'', ''2024-05-01T23:59:59'')]"
    by code_simp
  from fetch_query_shape [of accel_only_service "''2024-05-01''"] q show ?thesis
    by (simp add: accel_only_service_def)
qed

text \<open>
  C4. When both queries return and either result is empty, the script prints one
  message, writes no chart file and exits with code 0. An empty accelerometer result
  decides this whatever the gyroscope result holds; otherwise the empty gyroscope result
  does. Both queries are issued before either test.
\<close>

theorem no_data_exits_early:
  assumes "fetch_accelerometer_data execute date = Inr accel_data"
    and "fetch_gyroscope_data execute date = Inr gyro_data"
    and "accel_data = [] \<or> gyro_data = []"
  shows "snd (signal_fetcher execute decode render date) = Exit 0 \<and>
         exit_code (snd (signal_fetcher execute decode render date)) = 0 \<and>
         files (fst (signal_fetcher execute decode render date)) = [] \<and>
         printed (fst (signal_fetcher execute decode render date)) =
           (if accel_data = [] then [''No data found for the given date.'']
            else [''No gyroscope data found for the given date.''])"
  using assms by (auto simp: signal_fetcher_def Let_def)

theorem no_data_exits_early_witness:
  "fetch_accelerometer_data accel_only_service ''2024-05-01'' = Inr [reading_dict, reading_text] \<and>
   fetch_gyroscope_data accel_only_service ''2024-05-01'' = Inr [] \<and>
   signal_fetcher accel_only_service sample_decoder always_renders ''2024-05-01'' =
     (\<lparr>printed = [''No gyroscope data found for the given date.''], files = []\<rparr>, Exit 0) \<and>
   fetch_accelerometer_data empty_service ''2024-05-01'' = Inr [] \<and>
   fetch_gyroscope_data empty_service ''2024-05-01'' = Inr [] \<and>
   signal_fetcher empty_service sample_decoder always_renders ''2024-05-01'' =
     (\<lparr>printed = [''No data found for the given date.''], files = []\<rparr>, Exit 0)"
proof -
  have a1: "fetch_accelerometer_data accel_only_service ''2024-05-01''
              = Inr [reading_dict, reading_text]"
    by code_simp
  have a2: "fetch_gyroscope_data accel_only_service ''2024-05-01'' = Inr []"
    by code_simp
  have a3: "[reading_dict, reading_text] = [] \<or> ([] :: pydict list) = []" by simp
  have b1: "fetch_accelerometer_data empty_service ''2024-05-01'' = Inr []"
    by (simp add: fetch_accelerometer_data_def empty_service_def)
  have b2: "fetch_gyroscope_data empty_service ''2024-05-01'' = Inr []"
    by (simp add: fetch_gyroscope_data_def empty_service_def)
  have b3: "([] :: pydict list) = [] \<or> ([] :: pydict list) = []" by simp
  note A = no_data_exits_early [OF a1 a2 a3, of sample_decoder always_renders]
  note B = no_data_exits_early [OF b1 b2 b3, of sample_decoder always_renders]
  have "signal_fetcher accel_only_service sample_decoder always_renders ''2024-05-01'' =
     (\<lparr>printed = [''No gyroscope data found for the given date.''], files = []\<rparr>, Exit 0)"
    using A by (cases "signal_fetcher accel_only_service sample_decoder always_renders ''2024-05-01''")
               simp
  moreover have "signal_fetcher empty_service sample_decoder always_renders ''2024-05-01'' =
     (\<lparr>printed = [''No data found for the given date.''], files = []\<rparr>, Exit 0)"
    using B by (cases "signal_fetcher empty_service sample_decoder always_renders ''2024-05-01''")
               simp
  ultimately show ?thesis using a1 a2 b1 b2 by simp
qed


end
